theory Spec2Isabelle
  imports Main "HOL-Library.AList"
begin

section \<open>Go strings\<close>

text \<open>
  A Go \<^verbatim>\<open>string\<close> is a sequence of bytes, modelled as \<^typ>\<open>string\<close> (a list of
  8-bit characters). The library functions below follow the Go standard library on
  ASCII text, which is what every marker of the Unity dialect is made of. Bytes from
  \<open>0x80\<close> upwards are carried through unchanged: the Unicode tables behind
  \<^verbatim>\<open>strings.TrimSpace\<close>, \<^verbatim>\<open>strings.ToLower\<close> and the \<^verbatim>\<open>(?i)\<close> flag are not modelled.
\<close>

fun starts_with :: "string \<Rightarrow> string \<Rightarrow> bool" where
  "starts_with s [] = True"
| "starts_with [] (p # ps) = False"
| "starts_with (c # cs) (p # ps) = (c = p \<and> starts_with cs ps)"

text \<open>\<^verbatim>\<open>strings.Index\<close>: the position of the first occurrence, \<open>None\<close> for Go's \<open>-1\<close>.\<close>

fun strings_Index :: "string \<Rightarrow> string \<Rightarrow> nat option" where
  "strings_Index [] sub = (if sub = [] then Some 0 else None)"
| "strings_Index (c # cs) sub =
     (if starts_with (c # cs) sub then Some 0 else map_option Suc (strings_Index cs sub))"

text \<open>\<^verbatim>\<open>strings.LastIndex\<close>: the position of the last occurrence.\<close>

fun strings_LastIndex :: "string \<Rightarrow> string \<Rightarrow> nat option" where
  "strings_LastIndex [] sub = (if sub = [] then Some 0 else None)"
| "strings_LastIndex (c # cs) sub =
     (case strings_LastIndex cs sub of
        Some i \<Rightarrow> Some (Suc i)
      | None \<Rightarrow> if starts_with (c # cs) sub then Some 0 else None)"

definition strings_Contains :: "string \<Rightarrow> string \<Rightarrow> bool" where
  "strings_Contains s sub = (strings_Index s sub \<noteq> None)"

text \<open>
  \<^verbatim>\<open>strings.Split\<close> for a non-empty separator (the callers pass \<open>---\<close> and \<open>&\<close>):
  the text is cut at the non-overlapping occurrences of the separator, found left to
  right. The counter says how many bytes of a separator just found are still to be
  skipped; \<open>cur\<close> is the segment being collected.
\<close>

fun split_from :: "string \<Rightarrow> nat \<Rightarrow> string \<Rightarrow> string \<Rightarrow> string list" where
  "split_from sep k cur [] = [cur]"
| "split_from sep (Suc k) cur (c # cs) = split_from sep k cur cs"
| "split_from sep 0 cur (c # cs) =
     (if starts_with (c # cs) sep then cur # split_from sep (length sep - 1) [] cs
      else split_from sep 0 (cur @ [c]) cs)"

definition strings_Split :: "string \<Rightarrow> string \<Rightarrow> string list" where
  "strings_Split s sep = split_from sep 0 [] s"

text \<open>The bytes \<^verbatim>\<open>strings.TrimSpace\<close> removes: tab, newline, vertical tab, form feed,
  carriage return, space.\<close>

definition asciiSpace :: "char \<Rightarrow> bool" where
  "asciiSpace c = (c \<in> set [CHR 0x09, CHR 0x0A, CHR 0x0B, CHR 0x0C, CHR 0x0D, CHR 0x20])"

definition strings_TrimSpace :: "string \<Rightarrow> string" where
  "strings_TrimSpace s = rev (dropWhile asciiSpace (rev (dropWhile asciiSpace s)))"

text \<open>\<^verbatim>\<open>strings.ToLower\<close>: the letters \<open>A\<close> to \<open>Z\<close> become \<open>a\<close> to \<open>z\<close>.\<close>

definition to_lower :: "char \<Rightarrow> char" where
  "to_lower c =
     (case map_of (zip ''ABCDEFGHIJKLMNOPQRSTUVWXYZ'' ''abcdefghijklmnopqrstuvwxyz'') c of
        Some l \<Rightarrow> l
      | None \<Rightarrow> c)"

definition strings_ToLower :: "string \<Rightarrow> string" where
  "strings_ToLower s = map to_lower s"

section \<open>Regular expressions\<close>

text \<open>
  The patterns of the source are values of \<open>rx\<close>, matched by a backtracking matcher in
  continuation-passing style: Go's \<^verbatim>\<open>regexp\<close> returns the leftmost match, and among the
  matches starting there the one a backtracking search finds first. Repetition is only
  ever applied to a character class in the source, so \<open>Star\<close> and \<open>Plus\<close> take a class.
  A match result is the unmatched rest of the text and the text of capture group 1.
\<close>

datatype rx =
    Lit string
  | Fold string
  | Star "char \<Rightarrow> bool"
  | Plus "char \<Rightarrow> bool"
  | Seq rx rx
  | Alt rx rx
  | Opt rx
  | Cap rx

type_synonym rx_result = "string \<times> string option"

text \<open>Greedy repetition of a class: the longest run first, then shorter ones.\<close>

fun star :: "(char \<Rightarrow> bool) \<Rightarrow> (string \<Rightarrow> rx_result option) \<Rightarrow> string \<Rightarrow> rx_result option" where
  "star p k [] = k []"
| "star p k (c # cs) =
     (if p c then (case star p k cs of Some r \<Rightarrow> Some r | None \<Rightarrow> k (c # cs))
      else k (c # cs))"

text \<open>A literal under \<^verbatim>\<open>(?i)\<close>; the pattern text is written in lower case.\<close>

fun starts_with_fold :: "string \<Rightarrow> string \<Rightarrow> bool" where
  "starts_with_fold s [] = True"
| "starts_with_fold [] (p # ps) = False"
| "starts_with_fold (c # cs) (p # ps) = (to_lower c = p \<and> starts_with_fold cs ps)"

primrec rx_match :: "rx \<Rightarrow> (string \<Rightarrow> rx_result option) \<Rightarrow> string \<Rightarrow> rx_result option" where
  "rx_match (Lit l) k s = (if starts_with s l then k (drop (length l) s) else None)"
| "rx_match (Fold l) k s = (if starts_with_fold s l then k (drop (length l) s) else None)"
| "rx_match (Star p) k s = star p k s"
| "rx_match (Plus p) k s =
     (case s of [] \<Rightarrow> None | c # cs \<Rightarrow> if p c then star p k cs else None)"
| "rx_match (Seq a b) k s = rx_match a (rx_match b k) s"
| "rx_match (Alt a b) k s =
     (case rx_match a k s of Some r \<Rightarrow> Some r | None \<Rightarrow> rx_match b k s)"
| "rx_match (Opt a) k s =
     (case rx_match a k s of Some r \<Rightarrow> Some r | None \<Rightarrow> k s)"
| "rx_match (Cap a) k s =
     rx_match a (\<lambda>s'. case k s' of
                         None \<Rightarrow> None
                       | Some (fin, _) \<Rightarrow> Some (fin, Some (take (length s - length s') s))) s"

text \<open>A match starting at the first byte of \<open>s\<close>: the matched text and group 1
  (the empty string when the pattern has no group).\<close>

definition match_here :: "rx \<Rightarrow> string \<Rightarrow> (string \<times> string) option" where
  "match_here r s =
     (case rx_match r (\<lambda>rest. Some (rest, None)) s of
        None \<Rightarrow> None
      | Some (rest, g) \<Rightarrow>
          Some (take (length s - length rest) s, case g of None \<Rightarrow> [] | Some t \<Rightarrow> t))"

text \<open>\<^verbatim>\<open>FindStringSubmatch\<close>: the leftmost match, as (whole match, group 1).\<close>

fun FindStringSubmatch :: "rx \<Rightarrow> string \<Rightarrow> (string \<times> string) option" where
  "FindStringSubmatch r [] = match_here r []"
| "FindStringSubmatch r (c # cs) =
     (case match_here r (c # cs) of Some m \<Rightarrow> Some m | None \<Rightarrow> FindStringSubmatch r cs)"

definition MatchString :: "rx \<Rightarrow> string \<Rightarrow> bool" where
  "MatchString r s = (FindStringSubmatch r s \<noteq> None)"

text \<open>A pattern that begins with \<^verbatim>\<open>^\<close> can only match at the start of the text.\<close>

definition MatchString_anchored :: "rx \<Rightarrow> string \<Rightarrow> bool" where
  "MatchString_anchored r s = (match_here r s \<noteq> None)"

text \<open>
  \<^verbatim>\<open>FindAllStringSubmatch\<close> with \<open>n = -1\<close>: all non-overlapping matches, left to right, each
  with its start position. No pattern of the source matches the empty string. The
  counter is the number of bytes of the last match still to be stepped over.
\<close>

fun find_all_from :: "rx \<Rightarrow> nat \<Rightarrow> nat \<Rightarrow> string \<Rightarrow> (nat \<times> string \<times> string) list" where
  "find_all_from r k pos [] = []"
| "find_all_from r (Suc k) pos (c # cs) = find_all_from r k (Suc pos) cs"
| "find_all_from r 0 pos (c # cs) =
     (case match_here r (c # cs) of
        Some (whole, g) \<Rightarrow> (pos, whole, g) # find_all_from r (length whole - 1) (Suc pos) cs
      | None \<Rightarrow> find_all_from r 0 (Suc pos) cs)"

definition FindAllStringSubmatch :: "rx \<Rightarrow> string \<Rightarrow> (string \<times> string) list" where
  "FindAllStringSubmatch r s = map snd (find_all_from r 0 0 s)"


text \<open>\<^verbatim>\<open>ReplaceAllString\<close> with a replacement text free of \<open>$\<close> references.\<close>

fun replace_from :: "rx \<Rightarrow> string \<Rightarrow> nat \<Rightarrow> string \<Rightarrow> string" where
  "replace_from r repl k [] = []"
| "replace_from r repl (Suc k) (c # cs) = replace_from r repl k cs"
| "replace_from r repl 0 (c # cs) =
     (case match_here r (c # cs) of
        Some (whole, g) \<Rightarrow> repl @ replace_from r repl (length whole - 1) cs
      | None \<Rightarrow> c # replace_from r repl 0 cs)"

definition ReplaceAllString :: "rx \<Rightarrow> string \<Rightarrow> string \<Rightarrow> string" where
  "ReplaceAllString r src repl = replace_from r repl 0 src"

text \<open>The classes of the source's patterns: \<^verbatim>\<open>\s\<close> is \<^verbatim>\<open>[\t\n\f\r ]\<close>, \<^verbatim>\<open>\d\<close> is
  \<^verbatim>\<open>[0-9]\<close>, \<^verbatim>\<open>.\<close> is any byte but the newline.\<close>

definition cls_space :: "char \<Rightarrow> bool" where
  "cls_space c = (c \<in> set [CHR 0x09, CHR 0x0A, CHR 0x0C, CHR 0x0D, CHR 0x20])"

definition cls_digit :: "char \<Rightarrow> bool" where
  "cls_digit c = (c \<in> set ''0123456789'')"

definition cls_hex :: "char \<Rightarrow> bool" where
  "cls_hex c = (c \<in> set ''abcdef0123456789'')"

definition cls_any :: "char \<Rightarrow> bool" where
  "cls_any c = (c \<noteq> CHR 0x0A)"

definition cls_not_quote :: "char \<Rightarrow> bool" where
  "cls_not_quote c = (c \<noteq> CHR 0x27)"

fun seqs :: "rx list \<Rightarrow> rx" where
  "seqs [] = Lit []"
| "seqs [r] = r"
| "seqs (r # rs) = Seq r (seqs rs)"

section \<open>The dialect normalizer (decoder_unity_yaml.go)\<close>

text \<open>
  A \<^verbatim>\<open>bufio.Reader\<close> over the input is the bytes not yet read, together with the
  condition the underlying source reports once they are used up, and again every time
  it is asked for more: end of stream, or a read failure. \<open>Peek\<close>, \<open>ReadString\<close> and
  \<open>ReadAll\<close> return what they read, the error they report, and (for the two that
  consume) the reader afterwards.
\<close>

datatype io_error = EOF | ReadFailure

type_synonym reader = "string \<times> io_error"

definition Peek :: "nat \<Rightarrow> reader \<Rightarrow> string \<times> io_error option" where
  "Peek n r = (take n (fst r), if length (fst r) < n then Some (snd r) else None)"

definition ReadString :: "char \<Rightarrow> reader \<Rightarrow> (string \<times> io_error option) \<times> reader" where
  "ReadString delim r =
     (if delim \<in> set (fst r)
      then ((takeWhile (\<lambda>c. c \<noteq> delim) (fst r) @ [delim], None),
            (tl (dropWhile (\<lambda>c. c \<noteq> delim) (fst r)), snd r))
      else ((fst r, Some (snd r)), ([], snd r)))"

definition ReadAll :: "reader \<Rightarrow> (string \<times> io_error option) \<times> reader" where
  "ReadAll r = ((fst r, if snd r = EOF then None else Some (snd r)), ([], snd r))"

text \<open>The three line patterns, each anchored with \<^verbatim>\<open>^\<close> in the source, and the two
  patterns of the bulk rewrite.\<close>

definition commentLineRegEx :: rx where
  "commentLineRegEx = seqs [Star cls_space, Lit ''#'']"

definition yamlDirectiveLineRegEx :: rx where
  "yamlDirectiveLineRegEx = seqs [Star cls_space, Lit ''%YA'']"

definition tagDirectiveLineRegEx :: rx where
  "tagDirectiveLineRegEx = seqs [Star cls_space, Lit ''%TAG'']"

definition unityRefPattern :: rx where
  "unityRefPattern =
     seqs [Lit ''{fileID:'', Star cls_space, Opt (Lit ''-''), Plus cls_digit,
           Opt (seqs [Lit '','', Star cls_space, Lit ''guid:'', Star cls_space, Plus cls_hex,
                      Lit '','', Star cls_space, Lit ''type:'', Star cls_space, Plus cls_digit]),
           Lit ''}'']"

definition unityTagPattern :: rx where
  "unityTagPattern = seqs [Lit ''!u!'', Plus cls_digit]"

definition docSeparator :: string where
  "docSeparator = ''$yqDocSeparator$\<newline>''"

text \<open>
  The variables of \<^verbatim>\<open>processReadStream\<close>: the flag, the reader, the leading-content
  builder \<open>sb\<close> and the normalized output \<open>contentBuffer\<close>. What the function returns is
  the normalized stream, the leading content and the error; \<open>unread\<close> is what the
  caller's reader still holds at that moment.
\<close>

record norm_state =
  isUnityYaml :: bool
  reader :: reader
  sb :: string
  contentBuffer :: string

record norm_result =
  normalized :: string
  leading :: string
  failure :: "io_error option"
  unread :: string

definition finish :: "norm_state \<Rightarrow> io_error option \<Rightarrow> norm_state + norm_result" where
  "finish st e =
     Inr \<lparr>normalized = contentBuffer st, leading = sb st, failure = e,
          unread = fst (reader st)\<rparr>"

text \<open>The test after each read: end of stream returns without an error, any other
  error returns it, no error goes round the loop again.\<close>

definition after_read :: "io_error option \<Rightarrow> norm_state \<Rightarrow> norm_state + norm_result" where
  "after_read err st =
     (case err of
        None \<Rightarrow> Inl st
      | Some e \<Rightarrow> finish st (if e = EOF then None else Some e))"

text \<open>The anchor kept from a typed separator line in dialect mode.\<close>

definition anchor_part :: "string \<Rightarrow> string" where
  "anchor_part restOfLine =
     (if strings_Contains restOfLine ''&''
      then (case strings_Split restOfLine ''&'' of
              p0 # p1 # ps \<Rightarrow> '' &'' @ strings_TrimSpace p1
            | _ \<Rightarrow> [])
      else [])"

text \<open>The two substitutions applied to the bulk remainder in dialect mode.\<close>

definition unity_rewrite :: "string \<Rightarrow> string" where
  "unity_rewrite rest =
     ReplaceAllString unityTagPattern (ReplaceAllString unityRefPattern rest ''null'') []"

text \<open>One iteration of the loop: \<open>Inl\<close> is the state for the next iteration, \<open>Inr\<close> a
  return.\<close>

definition processReadStream_step :: "norm_state \<Rightarrow> norm_state + norm_result" where
  "processReadStream_step st =
     (case Peek 4 (reader st) of
        (peekBytes, Some err) \<Rightarrow> finish st (if err = EOF then None else Some err)
      | (peekBytes, None) \<Rightarrow>
          if take 1 peekBytes = ''\<newline>'' then
            (case ReadString (CHR 0x0A) (reader st) of
               ((line, err), r) \<Rightarrow>
                 after_read err
                   (st\<lparr>reader := r, sb := sb st @ line,
                       contentBuffer := contentBuffer st @ line\<rparr>))
          else if MatchString_anchored tagDirectiveLineRegEx peekBytes then
            (case ReadString (CHR 0x0A) (reader st) of
               ((line, err), r) \<Rightarrow>
                 if strings_Contains line ''tag:unity3d.com,2011:''
                 then Inl (st\<lparr>isUnityYaml := True, reader := r, sb := sb st @ line\<rparr>)
                 else after_read err
                        (st\<lparr>reader := r, sb := sb st @ line,
                            contentBuffer := contentBuffer st @ line\<rparr>))
          else if peekBytes = ''--- '' then
            (case ReadString (CHR 0x20) (reader st) of
               ((line, err), r) \<Rightarrow>
                 if isUnityYaml st then
                   (case ReadString (CHR 0x0A) r of
                      ((restOfLine, _), r') \<Rightarrow>
                        after_read err
                          (st\<lparr>reader := r',
                              sb := sb st @ line @ restOfLine,
                              contentBuffer :=
                                contentBuffer st @ ''---'' @ anchor_part restOfLine
                                  @ ''\<newline>''\<rparr>))
                 else
                   after_read err
                     (st\<lparr>reader := r, sb := sb st @ docSeparator,
                         contentBuffer := contentBuffer st @ docSeparator\<rparr>))
          else if peekBytes = ''---\<newline>'' then
            (case ReadString (CHR 0x0A) (reader st) of
               ((line, err), r) \<Rightarrow>
                 after_read err
                   (st\<lparr>reader := r, sb := sb st @ docSeparator,
                       contentBuffer := contentBuffer st @ docSeparator\<rparr>))
          else if MatchString_anchored commentLineRegEx peekBytes
                  \<or> MatchString_anchored yamlDirectiveLineRegEx peekBytes then
            (case ReadString (CHR 0x0A) (reader st) of
               ((line, err), r) \<Rightarrow>
                 after_read err
                   (st\<lparr>reader := r, sb := sb st @ line,
                       contentBuffer := contentBuffer st @ line\<rparr>))
          else
            (case ReadAll (reader st) of
               ((restBytes, err), r) \<Rightarrow>
                 (case err of
                    Some e \<Rightarrow> finish (st\<lparr>reader := r\<rparr>) (Some e)
                  | None \<Rightarrow>
                      finish
                        (st\<lparr>reader := r,
                            contentBuffer :=
                              contentBuffer st
                                @ (if isUnityYaml st then unity_rewrite restBytes
                                   else restBytes)\<rparr>)
                        None)))"

lemma ReadString_shorter:
  "fst r \<noteq> [] \<Longrightarrow> length (fst (snd (ReadString d r))) < length (fst r)"
proof (cases "d \<in> set (fst r)")
  case True
  assume "fst r \<noteq> []"
  from True have "dropWhile (\<lambda>c. c \<noteq> d) (fst r) \<noteq> []" by simp
  then have "length (tl (dropWhile (\<lambda>c. c \<noteq> d) (fst r)))
               < length (dropWhile (\<lambda>c. c \<noteq> d) (fst r))"
    by (cases "dropWhile (\<lambda>c. c \<noteq> d) (fst r)") simp_all
  also have "\<dots> \<le> length (fst r)" by (rule length_dropWhile_le)
  finally show ?thesis using True by (simp add: ReadString_def)
next
  case False
  assume "fst r \<noteq> []"
  with False show ?thesis by (simp add: ReadString_def)
qed

lemma ReadString_le:
  "length (fst (snd (ReadString d r))) \<le> length (fst r)"
  using ReadString_shorter [of r d] by (cases "fst r = []") (auto simp: ReadString_def)

lemma step_consumes:
  assumes "processReadStream_step st = Inl st'"
  shows "length (fst (reader st')) < length (fst (reader st))"
proof -
  have ne: "fst (reader st) \<noteq> []"
    using assms
    by (auto simp: processReadStream_step_def Peek_def finish_def split: if_splits)
  have one: "\<And>d. length (fst (snd (ReadString d (reader st)))) < length (fst (reader st))"
    using ne by (rule ReadString_shorter)
  have two: "\<And>d e. length (fst (snd (ReadString e (snd (ReadString d (reader st))))))
                 < length (fst (reader st))"
    using one ReadString_le le_less_trans by blast
  show ?thesis
    using assms one two
    by (auto simp: processReadStream_step_def Peek_def finish_def after_read_def
             split: if_splits prod.splits option.splits)
       (metis fst_conv snd_conv)+
qed

function processReadStream_loop :: "norm_state \<Rightarrow> norm_result" where
  "processReadStream_loop st =
     (case processReadStream_step st of
        Inl st' \<Rightarrow> processReadStream_loop st'
      | Inr res \<Rightarrow> res)"
  by pat_completeness auto
termination
  by (relation "measure (\<lambda>st. length (fst (reader st)))") (auto dest: step_consumes)

definition processReadStream :: "reader \<Rightarrow> norm_result" where
  "processReadStream r =
     processReadStream_loop
       \<lparr>isUnityYaml = False, reader = r, sb = [], contentBuffer = []\<rparr>"

subsection \<open>Notions the claims about the normalizer are stated with\<close>





section \<open>The document decoder (decoder_unity_yaml.go)\<close>



datatype node_kind = NoKind | ScalarNode | MappingNode | SequenceNode | AliasNode











section \<open>The node-graph extractor and its query helpers (unity_helpers.go)\<close>

text \<open>
  A Go map is an association list read with \<^const>\<open>map_of\<close>; a map built by the source
  has distinct keys. The values of \<^verbatim>\<open>Properties\<close> are of any type in the source
  (\<^verbatim>\<open>interface{}\<close>), hence the type parameter.
\<close>

record 'v UnityGraphNode =
  FileID :: string
  Name :: string
  ScriptType :: string
  Properties :: "(string \<times> 'v) list"
  SerializedData :: string

definition fileIDPattern :: rx where
  "fileIDPattern =
     seqs [Lit ''!u!'', Plus cls_digit, Star cls_space, Lit ''&'',
           Cap (Seq (Opt (Lit ''-'')) (Plus cls_digit))]"

definition namePattern :: rx where
  "namePattern = seqs [Lit ''m_Name:'', Star cls_space, Cap (Plus cls_any)]"

definition scriptPattern :: rx where
  "scriptPattern =
     seqs [Lit ''m_Script:'', Star cls_space, Lit ''{fileID:'', Star cls_space,
           Plus cls_digit, Lit '','', Star cls_space, Lit ''guid:'', Star cls_space,
           Cap (Plus cls_hex)]"

definition serializedPattern :: rx where
  "serializedPattern =
     seqs [Lit ''serializedData:'', Star cls_space, Lit [CHR 0x27],
           Cap (Star cls_not_quote), Lit [CHR 0x27]]"

definition propertyNames :: "string list" where
  "propertyNames =
     [''Extents'', ''GridCellSize'', ''MinimumDistance'', ''RoadPoseDistance'', ''Spacing'',
      ''Jittering'', ''EligibleForInjection'']"

text \<open>The pattern \<^verbatim>\<open>key:\s*(.+)\<close> for a key taken literally.\<close>

definition keyValuePattern :: "string \<Rightarrow> rx" where
  "keyValuePattern key = seqs [Lit (key @ '':''), Star cls_space, Cap (Plus cls_any)]"

text \<open>Group 1 of the leftmost match, or the empty string of a variable never
  assigned.\<close>

definition group1 :: "rx \<Rightarrow> string \<Rightarrow> string" where
  "group1 r doc = (case FindStringSubmatch r doc of Some (whole, g) \<Rightarrow> g | None \<Rightarrow> [])"

definition extract_properties :: "string list \<Rightarrow> string \<Rightarrow> (string \<times> string) list" where
  "extract_properties names doc =
     List.map_filter
       (\<lambda>propName. case FindStringSubmatch (keyValuePattern propName) doc of
                      Some (whole, g) \<Rightarrow> Some (propName, strings_TrimSpace g)
                    | None \<Rightarrow> None)
       names"

text \<open>The body of the loop over the segments: the node a segment yields, if any.\<close>

definition parse_document :: "string \<Rightarrow> string UnityGraphNode option" where
  "parse_document doc =
     (if strings_TrimSpace doc = [] then None
      else
        (let fileID = group1 fileIDPattern doc;
             name = strings_TrimSpace (group1 namePattern doc);
             scriptType = group1 scriptPattern doc;
             properties = extract_properties propertyNames doc;
             serializedData = group1 serializedPattern doc
         in if name \<noteq> []
            then Some \<lparr>FileID = fileID, Name = name, ScriptType = scriptType,
                       Properties = properties, SerializedData = serializedData\<rparr>
            else None))"

text \<open>\<^verbatim>\<open>ParseUnityGraphNodes\<close> returns the nodes and an error, which is always
  \<^verbatim>\<open>nil\<close>.\<close>

definition ParseUnityGraphNodes :: "string \<Rightarrow> string UnityGraphNode list \<times> string option" where
  "ParseUnityGraphNodes content =
     (List.map_filter parse_document (strings_Split content ''---''), None)"

text \<open>\<^verbatim>\<open>FilterNodesByType\<close> compiles its pattern text; the model is given the compiled
  pattern.\<close>

definition FilterNodesByType :: "'v UnityGraphNode list \<Rightarrow> rx \<Rightarrow> 'v UnityGraphNode list" where
  "FilterNodesByType nodes typePattern = filter (\<lambda>node. MatchString typePattern (Name node)) nodes"

text \<open>The pattern \<^verbatim>\<open>(?i)(spawner|pose.*set)\<close>.\<close>

definition spawnerPattern :: rx where
  "spawnerPattern =
     Cap (Alt (Fold ''spawner'') (seqs [Fold ''pose'', Star cls_any, Fold ''set'']))"

definition is_distance_key :: "string \<Rightarrow> bool" where
  "is_distance_key key =
     (strings_Contains (strings_ToLower key) ''distance''
      \<or> strings_Contains (strings_ToLower key) ''extent''
      \<or> strings_Contains (strings_ToLower key) ''spacing''
      \<or> strings_Contains (strings_ToLower key) ''cell''
      \<or> strings_Contains (strings_ToLower key) ''radius'')"

text \<open>The key \<^verbatim>\<open>fmt.Sprintf("%s (%s)", node.Name, node.FileID)\<close>.\<close>

definition node_key :: "'v UnityGraphNode \<Rightarrow> string" where
  "node_key node = Name node @ '' ('' @ FileID node @ '')''"

definition distanceProps :: "'v UnityGraphNode \<Rightarrow> (string \<times> 'v) list" where
  "distanceProps node = filter (\<lambda>(key, v). is_distance_key key) (Properties node)"

text \<open>The body of the loop over the spawner nodes, on the map built so far.\<close>

definition add_spawner ::
  "(string \<times> (string \<times> 'v) list) list \<Rightarrow> 'v UnityGraphNode
     \<Rightarrow> (string \<times> (string \<times> 'v) list) list" where
  "add_spawner spawnerDistances node =
     (if Properties node \<noteq> [] then
        (if distanceProps node \<noteq> []
         then AList.update (node_key node) (distanceProps node) spawnerDistances
         else spawnerDistances)
      else spawnerDistances)"

definition ExtractSpawnerDistances ::
  "'v UnityGraphNode list \<Rightarrow> (string \<times> (string \<times> 'v) list) list" where
  "ExtractSpawnerDistances nodes = foldl add_spawner [] (FilterNodesByType nodes spawnerPattern)"

definition GetNodeByFileID :: "'v UnityGraphNode list \<Rightarrow> string \<Rightarrow> 'v UnityGraphNode option" where
  "GetNodeByFileID nodes fileID = find (\<lambda>node. FileID node = fileID) nodes"



text \<open>The document around a match that starts at \<open>start\<close>: from the last \<open>---\<close>
  before the match to the next one after it.\<close>

definition containing_document :: "string \<Rightarrow> nat \<Rightarrow> string option" where
  "containing_document content start =
     (case strings_LastIndex (take start content) ''---'' of
        None \<Rightarrow> None
      | Some lastDocStart \<Rightarrow>
          (case strings_Index (drop (lastDocStart + 3) content) ''---'' of
             Some nextDocStart \<Rightarrow>
               Some (take (3 + nextDocStart) (drop lastDocStart content))
           | None \<Rightarrow> Some (drop lastDocStart content)))"




text \<open>A document-separator token \<open>---\<close> stands at position \<open>p\<close> of the text; and \<open>p\<close> is
  the position of the last such token that ends at or before position \<open>start\<close>.\<close>

definition token_at :: "string \<Rightarrow> nat \<Rightarrow> bool" where
  "token_at content p = starts_with (drop p content) ''---''"


section \<open>The extraction command (unity_extract.go)\<close>

text \<open>
  Standard output is the text printed so far. Where the source ranges over a map to
  print it, Go fixes no order: \<open>rangeOrder\<close> is the order the runtime picks, given the
  keys. An error is its message. The file system answers a read with the file's
  content or with the message of the failure.
\<close>

definition range_map :: "(string list \<Rightarrow> string list) \<Rightarrow> (string \<times> 'v) list \<Rightarrow> (string \<times> 'v) list" where
  "range_map rangeOrder m =
     List.map_filter (\<lambda>k. map_option (Pair k) (map_of m k)) (rangeOrder (map fst m))"

text \<open>\<^verbatim>\<open>%d\<close> of a count.\<close>

fun show_nat :: "nat \<Rightarrow> string" where
  "show_nat n =
     (if n < 10 then [''0123456789'' ! n]
      else show_nat (n div 10) @ [''0123456789'' ! (n mod 10)])"

definition cliPropertyNames :: "string list" where
  "cliPropertyNames =
     [''Extents'', ''GridCellSize'', ''MinimumDistance'', ''RoadPoseDistance'', ''Spacing'']"

text \<open>What \<^verbatim>\<open>extractSpawners\<close> finds in one segment: the name and the properties it
  prints, if it prints the segment at all.\<close>

definition spawner_entry :: "string \<Rightarrow> (string \<times> (string \<times> string) list) option" where
  "spawner_entry doc =
     (if strings_Contains doc ''Spawner'' \<and> strings_Contains doc ''m_Name:'' then
        (case FindStringSubmatch namePattern doc of
           None \<Rightarrow> None
         | Some (whole, g) \<Rightarrow>
             (let name = strings_TrimSpace g;
                  properties = extract_properties cliPropertyNames doc
              in if properties \<noteq> [] then Some (name, properties) else None))
      else None)"

definition print_spawner ::
  "(string list \<Rightarrow> string list) \<Rightarrow> string \<times> (string \<times> string) list \<Rightarrow> string" where
  "print_spawner rangeOrder e =
     fst e @ '':\<newline>''
       @ concat (map (\<lambda>(k, v). ''  '' @ k @ '': '' @ v @ ''\<newline>'') (range_map rangeOrder (snd e)))
       @ ''\<newline>''"

text \<open>The loop over the segments carries the count and the output.\<close>

definition extractSpawners_doc ::
  "(string list \<Rightarrow> string list) \<Rightarrow> nat \<times> string \<Rightarrow> string \<Rightarrow> nat \<times> string" where
  "extractSpawners_doc rangeOrder acc doc =
     (case spawner_entry doc of
        Some e \<Rightarrow> (Suc (fst acc), snd acc @ print_spawner rangeOrder e)
      | None \<Rightarrow> acc)"

definition extractSpawners ::
  "(string list \<Rightarrow> string list) \<Rightarrow> string \<Rightarrow> string \<times> string option" where
  "extractSpawners rangeOrder content =
     (case foldl (extractSpawners_doc rangeOrder) (0, []) (strings_Split content ''---'') of
        (spawnerCount, out) \<Rightarrow>
          (out @ (if spawnerCount = 0 then ''No spawners with distance properties found\<newline>''
                  else ''Total spawners found: '' @ show_nat spawnerCount @ ''\<newline>''),
           None))"

definition extractNodes_doc :: "nat \<times> string \<Rightarrow> string \<Rightarrow> nat \<times> string" where
  "extractNodes_doc acc doc =
     (if strings_Contains doc ''m_Name:'' then
        (case FindStringSubmatch namePattern doc of
           Some (whole, g) \<Rightarrow>
             (Suc (fst acc), snd acc @ ''- '' @ strings_TrimSpace g @ ''\<newline>'')
         | None \<Rightarrow> acc)
      else acc)"

definition extractNodes :: "string \<Rightarrow> string \<times> string option" where
  "extractNodes content =
     (case foldl extractNodes_doc (0, []) (strings_Split content ''---'') of
        (nodeCount, out) \<Rightarrow>
          (out @ ''\<newline>Total nodes: '' @ show_nat nodeCount @ ''\<newline>'', None))"

text \<open>Counting a value in the map of occurrences.\<close>

definition count_value :: "(string \<times> nat) list \<Rightarrow> string \<Rightarrow> (string \<times> nat) list" where
  "count_value values v =
     AList.update v (Suc (case map_of values v of None \<Rightarrow> 0 | Some n \<Rightarrow> n)) values"

text \<open>\<^verbatim>\<open>regexp.QuoteMeta\<close> makes the property name a literal of the pattern.\<close>

definition extractProperty ::
  "(string list \<Rightarrow> string list) \<Rightarrow> string \<Rightarrow> string \<Rightarrow> string \<times> string option" where
  "extractProperty rangeOrder content property =
     (let matches = FindAllStringSubmatch (keyValuePattern property) content in
      if matches = [] then (''Property '' @ [CHR 0x27] @ property @ [CHR 0x27] @ '' not found\<newline>'', None)
      else
        (let values = foldl (\<lambda>vs m. count_value vs (strings_TrimSpace (snd m))) [] matches
         in (''Property '' @ [CHR 0x27] @ property @ [CHR 0x27] @ '' values:\<newline>''
               @ concat (map (\<lambda>(v, n). ''  '' @ v @ '': '' @ show_nat n @ '' occurrences\<newline>'')
                             (range_map rangeOrder values)),
             None)))"

record run =
  files_read :: "string list"
  stdout :: string
  err :: "string option"

text \<open>
  \<^verbatim>\<open>unityExtractFunc\<close>, with the \<^verbatim>\<open>--property\<close> flag as \<open>propertyName\<close>. The command is
  declared with \<^verbatim>\<open>cobra.MinimumNArgs(2)\<close>, which turns a shorter argument list down before
  the function runs.
\<close>

definition unityExtractFunc ::
  "(string list \<Rightarrow> string list) \<Rightarrow> (string \<Rightarrow> string + string) \<Rightarrow> string \<Rightarrow> string list \<Rightarrow> run" where
  "unityExtractFunc rangeOrder readFile propertyName args =
     (case args of
        extractType # filename # others \<Rightarrow>
          (case readFile filename of
             Inl msg \<Rightarrow>
               \<lparr>files_read = [filename], stdout = [],
                err = Some (''failed to read file: '' @ msg)\<rparr>
           | Inr content \<Rightarrow>
               (case (if extractType = ''spawners'' then extractSpawners rangeOrder content
                      else if extractType = ''nodes'' then extractNodes content
                      else if extractType = ''property'' then
                        (if propertyName = []
                         then ([], Some ''property extraction requires --property flag'')
                         else extractProperty rangeOrder content propertyName)
                      else ([], Some (''unknown extraction type: '' @ extractType))) of
                  (out, e) \<Rightarrow> \<lparr>files_read = [filename], stdout = out, err = e\<rparr>))
      | _ \<Rightarrow>
          \<lparr>files_read = [], stdout = [],
           err = Some (''requires at least 2 arg(s), only received ''
                         @ show_nat (length args))\<rparr>)"

section \<open>Facts about the string and pattern library\<close>



lemma set_map_filter: "set (List.map_filter f xs) = {y. \<exists>x \<in> set xs. f x = Some y}"
  by (induction xs) (auto split: option.splits)


text \<open>The leftmost match is a match at some position of the text.\<close>

lemma find_submatch_suffix:
  "FindStringSubmatch r s = Some m \<Longrightarrow> \<exists>a t. s = a @ t \<and> match_here r t = Some m"
proof (induction s)
  case Nil
  then show ?case by auto
next
  case (Cons c cs)
  show ?case
  proof (cases "match_here r (c # cs)")
    case None
    with Cons.prems have "FindStringSubmatch r cs = Some m" by simp
    from Cons.IH [OF this] obtain a t where "cs = a @ t" "match_here r t = Some m" by blast
    then have "c # cs = (c # a) @ t \<and> match_here r t = Some m" by simp
    then show ?thesis by blast
  next
    case (Some m')
    with Cons.prems have "match_here r (c # cs) = Some m" by simp
    then have "c # cs = [] @ (c # cs) \<and> match_here r (c # cs) = Some m" by simp
    then show ?thesis by blast
  qed
qed

lemma match_here_Lit_first:
  "match_here (Seq (Lit l) r) t = Some m \<Longrightarrow> starts_with t l"
  by (auto simp: match_here_def split: option.splits if_splits)

lemma contains_append: "starts_with t sub \<Longrightarrow> strings_Contains (a @ t) sub"
proof (induction a)
  case Nil
  then show ?case by (cases t; cases sub) (auto simp: strings_Contains_def)
next
  case (Cons c a)
  then show ?case by (auto simp: strings_Contains_def)
qed

text \<open>A pattern without a match has no match to enumerate.\<close>

lemma find_all_none:
  "FindStringSubmatch r s = None \<Longrightarrow> find_all_from r 0 pos s = []"
proof (induction s arbitrary: pos)
  case Nil
  then show ?case by simp
next
  case (Cons c cs)
  then show ?case by (auto split: option.splits)
qed

text \<open>A key that matches is in the text, followed by its colon.\<close>

lemma key_value_match_contains:
  assumes "MatchString (keyValuePattern key) s"
  shows "strings_Contains s (key @ '':'')"
proof -
  from assms obtain m where "FindStringSubmatch (keyValuePattern key) s = Some m"
    by (auto simp: MatchString_def)
  from find_submatch_suffix [OF this] obtain a t where
    t: "s = a @ t" "match_here (keyValuePattern key) t = Some m" by blast
  from t(2) have "starts_with t (key @ '':'')"
    by (auto simp: keyValuePattern_def dest: match_here_Lit_first)
  with t(1) show ?thesis by (simp add: contains_append)
qed

section \<open>The node-graph extractor never fails and never yields a nameless node\<close>




section \<open>Spawner distance properties\<close>







section \<open>The extraction command\<close>

text \<open>
  Claim C3, as the spec states it: a command with an unrecognized extraction kind, or
  with the kind \<open>property\<close> and no property flag, fails before any file is read. The
  source reads the file first: with an unknown kind and a readable file the file has
  been read when the error is reported, and with an unreadable file the error reported
  is the read failure.
\<close>

theorem misuse_before_io_counterexample:
  "files_read (unityExtractFunc id (\<lambda>f. Inr ''m_Name: A'') [] [''bogus'', ''a.asset'']) = [''a.asset'']
   \<and> err (unityExtractFunc id (\<lambda>f. Inr ''m_Name: A'') [] [''bogus'', ''a.asset''])
       = Some ''unknown extraction type: bogus''
   \<and> files_read (unityExtractFunc id (\<lambda>f. Inl ''no such file'') [] [''property'', ''a.asset''])
       = [''a.asset'']
   \<and> err (unityExtractFunc id (\<lambda>f. Inl ''no such file'') [] [''property'', ''a.asset''])
       = Some ''failed to read file: no such file''"
  by (simp add: unityExtractFunc_def)

text \<open>
  Claim C3, amended. For every invocation with an unrecognized extraction kind, or with
  the kind \<open>property\<close> and an empty property flag, the command fails and prints
  nothing; it has read the input file by then, exactly once. The error is the read
  failure when the file cannot be read, and the misuse error otherwise.
\<close>

theorem misuse_reported_after_read:
  assumes "extractType \<notin> {''spawners'', ''nodes'', ''property''}
           \<or> (extractType = ''property'' \<and> propertyName = [])"
  shows "files_read (unityExtractFunc rangeOrder readFile propertyName (extractType # filename # others))
           = [filename]
         \<and> stdout (unityExtractFunc rangeOrder readFile propertyName (extractType # filename # others))
           = []
         \<and> err (unityExtractFunc rangeOrder readFile propertyName (extractType # filename # others))
           = Some (case readFile filename of
                     Inl msg \<Rightarrow> ''failed to read file: '' @ msg
                   | Inr content \<Rightarrow>
                       if extractType = ''property''
                       then ''property extraction requires --property flag''
                       else ''unknown extraction type: '' @ extractType)"
  using assms by (auto simp: unityExtractFunc_def split: sum.splits)

theorem misuse_reported_after_read_witness:
  "''bogus'' \<notin> {''spawners'', ''nodes'', ''property''}
   \<and> files_read (unityExtractFunc id (\<lambda>f. Inl ''no such file'') [] [''bogus'', ''a.asset''])
           = [''a.asset'']
   \<and> err (unityExtractFunc id (\<lambda>f. Inl ''no such file'') [] [''bogus'', ''a.asset''])
           = Some ''failed to read file: no such file''"
proof -
  have h: "''bogus'' \<notin> {''spawners'', ''nodes'', ''property''}
           \<or> (''bogus'' = ''property'' \<and> ([]::string) = [])" by simp
  from misuse_reported_after_read [OF h, of id "\<lambda>f. Inl ''no such file''" "''a.asset''" "[]"] h
  show ?thesis by simp
qed

text \<open>
  Claim C8. With a readable file and a property name whose pattern \<^verbatim>\<open>name:\s*(.+)\<close>
  matches nowhere in the file, the \<open>property\<close> command prints the not-found message
  and returns no error; with a readable file and an unrecognized extraction kind the
  command prints nothing and returns the unknown-kind error. (By
  \<open>key_value_match_contains\<close>, a name that does not occur in the file followed by a
  colon is such a name.)
\<close>

theorem property_not_found_is_success:
  "(readFile filename = Inr content \<and> property \<noteq> []
      \<and> \<not> MatchString (keyValuePattern property) content
    \<longrightarrow> unityExtractFunc rangeOrder readFile property (''property'' # filename # others)
          = \<lparr>files_read = [filename],
             stdout = ''Property '' @ [CHR 0x27] @ property @ [CHR 0x27] @ '' not found\<newline>'',
             err = None\<rparr>)
   \<and> (readFile filename = Inr content
      \<and> extractType \<notin> {''spawners'', ''nodes'', ''property''}
    \<longrightarrow> unityExtractFunc rangeOrder readFile property (extractType # filename # others)
          = \<lparr>files_read = [filename], stdout = [],
             err = Some (''unknown extraction type: '' @ extractType)\<rparr>)"
proof (intro conjI impI)
  assume a: "readFile filename = Inr content \<and> property \<noteq> []
      \<and> \<not> MatchString (keyValuePattern property) content"
  then have "FindStringSubmatch (keyValuePattern property) content = None"
    unfolding MatchString_def by blast
  then have "FindAllStringSubmatch (keyValuePattern property) content = []"
    by (simp add: FindAllStringSubmatch_def find_all_none)
  with a show "unityExtractFunc rangeOrder readFile property (''property'' # filename # others)
          = \<lparr>files_read = [filename],
             stdout = ''Property '' @ [CHR 0x27] @ property @ [CHR 0x27] @ '' not found\<newline>'',
             err = None\<rparr>"
    by (simp add: unityExtractFunc_def extractProperty_def)
next
  assume "readFile filename = Inr content
      \<and> extractType \<notin> {''spawners'', ''nodes'', ''property''}"
  then show "unityExtractFunc rangeOrder readFile property (extractType # filename # others)
          = \<lparr>files_read = [filename], stdout = [],
             err = Some (''unknown extraction type: '' @ extractType)\<rparr>"
    by (simp add: unityExtractFunc_def)
qed

theorem property_not_found_is_success_witness:
  "\<not> MatchString (keyValuePattern ''Radius'') ''m_Name: Rock\<newline>  Spacing: 2\<newline>''
   \<and> unityExtractFunc id (\<lambda>f. Inr ''m_Name: Rock\<newline>  Spacing: 2\<newline>'') ''Radius'' [''property'', ''a.asset'']
       = \<lparr>files_read = [''a.asset''], stdout = ''Property '' @ [CHR 0x27] @ ''Radius'' @ [CHR 0x27] @ '' not found\<newline>'', err = None\<rparr>
   \<and> unityExtractFunc id (\<lambda>f. Inr ''m_Name: Rock\<newline>  Spacing: 2\<newline>'') ''Radius'' [''values'', ''a.asset'']
       = \<lparr>files_read = [''a.asset''], stdout = [], err = Some ''unknown extraction type: values''\<rparr>"
proof -
  have nm: "\<not> MatchString (keyValuePattern ''Radius'') ''m_Name: Rock\<newline>  Spacing: 2\<newline>''"
    by code_simp
  have k: "''values'' \<notin> {''spawners'', ''nodes'', ''property''}" by simp
  from property_not_found_is_success
         [of "\<lambda>f. Inr ''m_Name: Rock\<newline>  Spacing: 2\<newline>''" "''a.asset''"
             "''m_Name: Rock\<newline>  Spacing: 2\<newline>''" "''Radius''" id "[]" "''values''"]
       nm k
  show ?thesis by simp
qed

section \<open>The command's spawner listing against the query helper\<close>

lemma extract_properties_keys: "fst ` set (extract_properties names doc) \<subseteq> set names"
  by (auto simp: extract_properties_def set_map_filter split: option.splits)

lemma foldl_no_entries:
  "\<forall>doc \<in> set docs. spawner_entry doc = None \<Longrightarrow>
     foldl (extractSpawners_doc rangeOrder) acc docs = acc"
  by (induction docs arbitrary: acc) (auto simp: extractSpawners_doc_def)

text \<open>
  Claim C10. The loop of \<^verbatim>\<open>extractSpawners\<close> prints for a segment (changes its count
  and output) only if the segment contains the literal texts \<open>Spawner\<close> and
  \<open>m_Name:\<close>, and the properties it prints are among \<open>Extents\<close>, \<open>GridCellSize\<close>,
  \<open>MinimumDistance\<close>, \<open>RoadPoseDistance\<close>, \<open>Spacing\<close>. For the one-document text whose
  node is named \<open>grid spawner\<close>, \<^verbatim>\<open>ExtractSpawnerDistances\<close> has an entry for the node
  while the command reports that it found no spawner.
\<close>

theorem cli_spawners_narrower_than_helper:
  "(\<forall>doc acc. extractSpawners_doc rangeOrder acc doc \<noteq> acc \<longrightarrow>
       strings_Contains doc ''Spawner'' \<and> strings_Contains doc ''m_Name:'')
   \<and> (\<forall>doc name props. spawner_entry doc = Some (name, props) \<longrightarrow>
         fst ` set props
           \<subseteq> {''Extents'', ''GridCellSize'', ''MinimumDistance'', ''RoadPoseDistance'', ''Spacing''})
   \<and> ExtractSpawnerDistances
        (fst (ParseUnityGraphNodes ''--- !u!114 &1\<newline>  m_Name: grid spawner\<newline>  Extents: 150\<newline>''))
       = [(''grid spawner (1)'', [(''Extents'', ''150'')])]
   \<and> extractSpawners rangeOrder ''--- !u!114 &1\<newline>  m_Name: grid spawner\<newline>  Extents: 150\<newline>''
       = (''No spawners with distance properties found\<newline>'', None)"
proof -
  have printed: "strings_Contains doc ''Spawner'' \<and> strings_Contains doc ''m_Name:''"
    if "extractSpawners_doc rangeOrder acc doc \<noteq> acc" for doc acc
  proof -
    from that have "spawner_entry doc \<noteq> None"
      by (auto simp: extractSpawners_doc_def split: option.splits)
    then show ?thesis
      by (auto simp: spawner_entry_def split: if_splits)
  qed
  have catalog: "fst ` set props
           \<subseteq> {''Extents'', ''GridCellSize'', ''MinimumDistance'', ''RoadPoseDistance'', ''Spacing''}"
    if "spawner_entry doc = Some (name, props)" for doc name props
  proof -
    from that have "props = extract_properties cliPropertyNames doc"
      by (auto simp: spawner_entry_def Let_def split: if_splits option.splits)
    then show ?thesis
      using extract_properties_keys [of cliPropertyNames doc]
      by (simp add: cliPropertyNames_def)
  qed
  have helper: "ExtractSpawnerDistances
        (fst (ParseUnityGraphNodes ''--- !u!114 &1\<newline>  m_Name: grid spawner\<newline>  Extents: 150\<newline>''))
       = [(''grid spawner (1)'', [(''Extents'', ''150'')])]"
    by code_simp
  have split: "strings_Split ''--- !u!114 &1\<newline>  m_Name: grid spawner\<newline>  Extents: 150\<newline>'' ''---''
          = [[], '' !u!114 &1\<newline>  m_Name: grid spawner\<newline>  Extents: 150\<newline>'']"
    by code_simp
  have e1: "spawner_entry [] = None" by code_simp
  have e2: "spawner_entry '' !u!114 &1\<newline>  m_Name: grid spawner\<newline>  Extents: 150\<newline>'' = None"
    by code_simp
  have "foldl (extractSpawners_doc rangeOrder) (0, [])
          (strings_Split ''--- !u!114 &1\<newline>  m_Name: grid spawner\<newline>  Extents: 150\<newline>'' ''---'')
        = (0, [])"
    unfolding split using e1 e2 by (intro foldl_no_entries) simp
  then have cli: "extractSpawners rangeOrder ''--- !u!114 &1\<newline>  m_Name: grid spawner\<newline>  Extents: 150\<newline>''
       = (''No spawners with distance properties found\<newline>'', None)"
    by (simp add: extractSpawners_def)
  from printed catalog helper cli show ?thesis by blast
qed

theorem cli_spawners_narrower_than_helper_witness:
  "extractSpawners_doc id (0, []) '' !u!114 &1\<newline>  m_Name: Grid Spawner\<newline>  Extents: 150\<newline>  Jittering: 1\<newline>''
     = (1, ''Grid Spawner:\<newline>  Extents: 150\<newline>\<newline>'')
   \<and> strings_Contains '' !u!114 &1\<newline>  m_Name: Grid Spawner\<newline>  Extents: 150\<newline>  Jittering: 1\<newline>'' ''Spawner''
   \<and> strings_Contains '' !u!114 &1\<newline>  m_Name: Grid Spawner\<newline>  Extents: 150\<newline>  Jittering: 1\<newline>'' ''m_Name:''"
proof -
  let ?doc = "'' !u!114 &1\<newline>  m_Name: Grid Spawner\<newline>  Extents: 150\<newline>  Jittering: 1\<newline>''"
  have ev: "extractSpawners_doc id (0, []) ?doc = (1, ''Grid Spawner:\<newline>  Extents: 150\<newline>\<newline>'')"
    by code_simp
  then have "extractSpawners_doc id (0, []) ?doc \<noteq> (0, [])" by simp
  with cli_spawners_narrower_than_helper [of id]
  have "strings_Contains ?doc ''Spawner'' \<and> strings_Contains ?doc ''m_Name:''"
    by blast
  with ev show ?thesis by blast
qed

section \<open>The normalizer on input without the vendor tag directive\<close>




lemma starts_with_length: "starts_with s p \<Longrightarrow> length p \<le> length s"
  by (induction s p rule: starts_with.induct) auto


lemma starts_with_prefix: "starts_with (a @ b) p \<Longrightarrow> length p \<le> length a \<Longrightarrow> starts_with a p"
  by (induction a p rule: starts_with.induct) auto

lemma starts_with_take_iff: "length p \<le> n \<Longrightarrow> starts_with (take n s) p = starts_with s p"
proof (induction s p arbitrary: n rule: starts_with.induct)
  case (1 s)
  then show ?case by simp
next
  case (2 p ps)
  then show ?case by simp
next
  case (3 c cs p ps)
  then show ?case by (cases n) auto
qed



lemma starts_with_appendI: "starts_with a p \<Longrightarrow> starts_with (a @ b) p"
  by (induction a p rule: starts_with.induct) auto





lemma loop_Inr: "processReadStream_step st = Inr res \<Longrightarrow> processReadStream_loop st = res"
  by (subst processReadStream_loop.simps) simp

lemma loop_Inl:
  "processReadStream_step st = Inl st' \<Longrightarrow> processReadStream_loop st = processReadStream_loop st'"
  by (subst processReadStream_loop.simps) simp











section \<open>The four-byte look-ahead at the end of the input\<close>

lemma comment_peek:
  "MatchString_anchored commentLineRegEx (CHR ''#'' # xs)"
  by (simp add: MatchString_anchored_def match_here_def commentLineRegEx_def cls_space_def)

lemma tag_peek_hash:
  "\<not> MatchString_anchored tagDirectiveLineRegEx (CHR ''#'' # xs)"
  by (simp add: MatchString_anchored_def match_here_def tagDirectiveLineRegEx_def cls_space_def)

lemma step_comment_line:
  assumes "Peek 4 (reader st) = (CHR ''#'' # xs, None)"
    and "ReadString (CHR 0x0A) (reader st) = ((line, rerr), r)"
  shows "processReadStream_step st =
           after_read rerr
             (st\<lparr>reader := r, sb := sb st @ line, contentBuffer := contentBuffer st @ line\<rparr>)"
  using assms comment_peek [of xs] tag_peek_hash [of xs]
  by (simp add: processReadStream_step_def)

text \<open>
  Claim C9. Whatever the loop has collected so far, when fewer than four bytes are
  left the look-ahead reports the end of the stream and normalization returns without
  an error, the collected output and leading content unchanged and the last bytes
  still unread. So a comment line followed by a last fragment of fewer than four bytes
  normalizes to the comment line alone, provided the two are at least four bytes long
  together.
\<close>

theorem short_tail_is_dropped:
  "(length tail < 4 \<longrightarrow>
      processReadStream_loop
        \<lparr>isUnityYaml = u, reader = (tail, EOF), sb = lead, contentBuffer = out\<rparr>
      = \<lparr>normalized = out, leading = lead, failure = None, unread = tail\<rparr>)
   \<and> (length tail < 4 \<and> CHR 0x0A \<notin> set body \<and> 4 \<le> length (CHR ''#'' # body @ ''\<newline>'' @ tail) \<longrightarrow>
      processReadStream_loop
        \<lparr>isUnityYaml = u, reader = (CHR ''#'' # body @ ''\<newline>'' @ tail, EOF), sb = lead,
         contentBuffer = out\<rparr>
      = \<lparr>normalized = out @ CHR ''#'' # body @ ''\<newline>'',
         leading = lead @ CHR ''#'' # body @ ''\<newline>'', failure = None, unread = tail\<rparr>)"
proof (intro conjI impI)
  assume "length tail < 4"
  then have "processReadStream_step
        \<lparr>isUnityYaml = u, reader = (tail, EOF), sb = lead, contentBuffer = out\<rparr>
      = Inr \<lparr>normalized = out, leading = lead, failure = None, unread = tail\<rparr>"
    by (simp add: processReadStream_step_def Peek_def finish_def)
  then show "processReadStream_loop
        \<lparr>isUnityYaml = u, reader = (tail, EOF), sb = lead, contentBuffer = out\<rparr>
      = \<lparr>normalized = out, leading = lead, failure = None, unread = tail\<rparr>"
    by (rule loop_Inr)
next
  assume a: "length tail < 4 \<and> CHR 0x0A \<notin> set body
               \<and> 4 \<le> length (CHR ''#'' # body @ ''\<newline>'' @ tail)"
  let ?bs = "CHR ''#'' # body @ ''\<newline>'' @ tail"
  let ?line = "CHR ''#'' # body @ ''\<newline>''"
  let ?st = "\<lparr>isUnityYaml = u, reader = (?bs, EOF), sb = lead, contentBuffer = out\<rparr>"
  have "\<exists>xs. Peek 4 (reader ?st) = (CHR ''#'' # xs, None)"
    using a by (simp add: Peek_def)
  then obtain xs where pk: "Peek 4 (reader ?st) = (CHR ''#'' # xs, None)" by blast
  have tw: "takeWhile (\<lambda>c. c \<noteq> CHR 0x0A) (body @ CHR 0x0A # tail) = body"
    using a by (simp add: takeWhile_append)
  have dw: "dropWhile (\<lambda>c. c \<noteq> CHR 0x0A) (body @ CHR 0x0A # tail) = CHR 0x0A # tail"
    using a by (simp add: dropWhile_append)
  have rs: "ReadString (CHR 0x0A) (reader ?st) = ((?line, None), (tail, EOF))"
    using tw dw by (simp add: ReadString_def)
  from step_comment_line [OF pk rs]
  have "processReadStream_step ?st
        = Inl \<lparr>isUnityYaml = u, reader = (tail, EOF), sb = lead @ ?line,
               contentBuffer = out @ ?line\<rparr>"
    by (simp add: after_read_def)
  then have "processReadStream_loop ?st
        = processReadStream_loop \<lparr>isUnityYaml = u, reader = (tail, EOF), sb = lead @ ?line,
               contentBuffer = out @ ?line\<rparr>"
    by (rule loop_Inl)
  also have "\<dots> = \<lparr>normalized = out @ ?line, leading = lead @ ?line, failure = None,
                     unread = tail\<rparr>"
  proof -
    have "processReadStream_step
        \<lparr>isUnityYaml = u, reader = (tail, EOF), sb = lead @ ?line, contentBuffer = out @ ?line\<rparr>
      = Inr \<lparr>normalized = out @ ?line, leading = lead @ ?line, failure = None, unread = tail\<rparr>"
      using a by (simp add: processReadStream_step_def Peek_def finish_def)
    then show ?thesis by (rule loop_Inr)
  qed
  finally show "processReadStream_loop ?st
      = \<lparr>normalized = out @ ?line, leading = lead @ ?line, failure = None, unread = tail\<rparr>"
    by simp
qed

theorem short_tail_is_dropped_witness:
  "processReadStream (''# c\<newline>ab'', EOF)
     = \<lparr>normalized = ''# c\<newline>'', leading = ''# c\<newline>'', failure = None, unread = ''ab''\<rparr>"
  using short_tail_is_dropped [of "''ab''" False "[]" "[]" "'' c''"]
  by (simp add: processReadStream_def)

section \<open>The documents that refer to a node\<close>

text \<open>\<^verbatim>\<open>strings.LastIndex\<close> finds the last position at which the text goes on with the
  token, and reports none only if there is none.\<close>

lemma starts_with_Nil: "starts_with [] p \<longleftrightarrow> p = []"
  by (cases p) auto

lemma starts_with_take_eq:
  "starts_with (take m ys) p \<longleftrightarrow> length p \<le> m \<and> starts_with ys p"
proof
  assume a: "starts_with (take m ys) p"
  from starts_with_length [OF a] have "length p \<le> m" by simp
  moreover from a have "starts_with ys p"
    by (metis append_take_drop_id starts_with_appendI)
  ultimately show "length p \<le> m \<and> starts_with ys p" by simp
next
  assume "length p \<le> m \<and> starts_with ys p"
  then show "starts_with (take m ys) p" by (simp add: starts_with_take_iff)
qed

lemma LastIndex_None:
  "strings_LastIndex s sub = None \<Longrightarrow> \<forall>j \<le> length s. \<not> starts_with (drop j s) sub"
proof (induction s)
  case Nil
  then show ?case by (auto simp: starts_with_Nil split: if_splits)
next
  case (Cons d ds)
  from Cons.prems have n: "strings_LastIndex ds sub = None" "\<not> starts_with (d # ds) sub"
    by (auto split: option.splits if_splits)
  show ?case
  proof (intro allI impI)
    fix j assume "j \<le> length (d # ds)"
    then show "\<not> starts_with (drop j (d # ds)) sub"
      using n Cons.IH by (cases j) auto
  qed
qed


lemma token_before:
  "starts_with (drop j (take start content)) ''---'' \<longleftrightarrow> token_at content j \<and> j + 3 \<le> start"
  by (auto simp: drop_take starts_with_take_eq token_at_def)


lemma token_at_length: "token_at content q \<Longrightarrow> q + 3 \<le> length content"
  using starts_with_length [of "drop q content" "''---''"] by (simp add: token_at_def)


lemma containing_document_None:
  assumes "containing_document content start = None"
  shows "\<not> (\<exists>p < start. token_at content p \<and> p + 3 \<le> start)"
proof
  assume "\<exists>p < start. token_at content p \<and> p + 3 \<le> start"
  then obtain p where p: "p < start" "token_at content p" "p + 3 \<le> start" by blast
  from assms have "strings_LastIndex (take start content) ''---'' = None"
    by (auto simp: containing_document_def split: option.splits)
  from LastIndex_None [OF this] have
    "\<forall>j \<le> length (take start content). \<not> starts_with (drop j (take start content)) ''---''" .
  moreover from token_at_length [OF p(2)] p(1) have "p \<le> length (take start content)" by simp
  moreover have "starts_with (drop p (take start content)) ''---''"
    using p by (simp add: token_before)
  ultimately show False by blast
qed






section \<open>A source with leading content and no document\<close>







end
